theory Spec2Isabelle
  imports Complex_Main "HOL-Library.Log_Nat"
begin

section \<open>JavaScript values\<close>

text \<open>
  The values that reach the frontend's helper functions come from a JSON response body
  (\<open>res.data\<close>) or from the chart library's tooltip payload, so a value is one of:
  \<open>undefined\<close>, \<open>null\<close>, a boolean, a number, a string, an array or a plain object.

  Numbers: a JavaScript number is a binary64 value: a finite rational (\<open>Finite 0\<close> is
  the positive zero), the negative zero, \<open>+Infinity\<close>, \<open>-Infinity\<close> or \<open>NaN\<close>. The
  operations that produce numbers (reading a string, division) round their exact result
  to binary64, see \<open>round_binary64\<close> below.

  Strings are lists of 8-bit characters. Objects are association lists of their own
  properties; the first binding of a key is the one read. Objects are data objects as
  \<open>JSON.parse\<close> builds them: no property is a function.
\<close>

datatype error = TypeError | RangeError

type_synonym 'a res = "error + 'a"

datatype jsnum = Finite rat | NegZero | PInf | NInf | NaN

datatype jsval =
    JUndefined
  | JNull
  | JBool bool
  | JNum jsnum
  | JStr string
  | JArr "jsval list"
  | JObj "(string \<times> jsval) list"

text \<open>\<open>ToBoolean\<close>: the falsy values are \<open>undefined\<close>, \<open>null\<close>, \<open>false\<close>, \<open>0\<close>,
  \<open>NaN\<close> and the empty string.\<close>

fun truthy :: "jsval \<Rightarrow> bool" where
  "truthy JUndefined = False"
| "truthy JNull = False"
| "truthy (JBool b) = b"
| "truthy (JNum n) = (n \<noteq> Finite 0 \<and> n \<noteq> NegZero \<and> n \<noteq> NaN)"
| "truthy (JStr s) = (s \<noteq> [])"
| "truthy (JArr xs) = True"
| "truthy (JObj kvs) = True"

subsection \<open>Reading a string as a number\<close>

text \<open>
  The grammar of \<open>StringToNumber\<close> in the language standard and the mathematical value
  of a text: surrounding white space is dropped, the empty string is \<open>0\<close>, then the text
  is a signed decimal literal (digits, an optional fraction, an optional exponent, or
  \<open>Infinity\<close>) or an unsigned literal with prefix \<open>0x\<close>, \<open>0o\<close> or \<open>0b\<close>; anything else
  is \<open>NaN\<close>. \<open>numeric_text_value\<close> is the exact value the text denotes;
  \<open>string_to_number\<close> below rounds it to binary64, as the conversion does.
  White space is TAB, LF, VT, FF, CR, SP and NBSP (the white-space characters below 256).
\<close>

definition is_ws :: "char \<Rightarrow> bool" where
  "is_ws c = (of_char c \<in> set [9, 10, 11, 12, 13, 32, 160 :: nat])"

definition trim_ws :: "string \<Rightarrow> string" where
  "trim_ws s = rev (dropWhile is_ws (rev (dropWhile is_ws s)))"

definition digit_value :: "nat \<Rightarrow> char \<Rightarrow> nat option" where
  "digit_value base c =
     (let n = (of_char c :: nat);
          v = (if 48 \<le> n \<and> n \<le> 57 then Some (n - 48)
               else if 97 \<le> n \<and> n \<le> 102 then Some (n - 87)
               else if 65 \<le> n \<and> n \<le> 70 then Some (n - 55)
               else None)
      in case v of None \<Rightarrow> None | Some d \<Rightarrow> if d < base then Some d else None)"

fun digits_acc :: "nat \<Rightarrow> nat \<Rightarrow> string \<Rightarrow> nat option" where
  "digits_acc base acc [] = Some acc"
| "digits_acc base acc (c # cs) =
     (case digit_value base c of
        None \<Rightarrow> None
      | Some d \<Rightarrow> digits_acc base (acc * base + d) cs)"

definition digits_value :: "nat \<Rightarrow> string \<Rightarrow> nat option" where
  "digits_value base cs = (if cs = [] then None else digits_acc base 0 cs)"

definition parse_exponent :: "string \<Rightarrow> int option" where
  "parse_exponent s =
     (case s of
        [] \<Rightarrow> None
      | c # ds \<Rightarrow>
          if c = CHR ''+'' then map_option int (digits_value 10 ds)
          else if c = CHR ''-'' then map_option (\<lambda>n. - int n) (digits_value 10 ds)
          else map_option int (digits_value 10 s))"

definition scale10 :: "rat \<Rightarrow> int \<Rightarrow> rat" where
  "scale10 m e = (if 0 \<le> e then m * 10 ^ nat e else m / 10 ^ nat (- e))"

definition is_exp_mark :: "char \<Rightarrow> bool" where
  "is_exp_mark c = (c = CHR ''e'' \<or> c = CHR ''E'')"

definition parse_mantissa :: "string \<Rightarrow> rat option" where
  "parse_mantissa mant =
     (let ip = takeWhile (\<lambda>c. c \<noteq> CHR ''.'') mant;
          fr = dropWhile (\<lambda>c. c \<noteq> CHR ''.'') mant
      in if fr = [] then map_option of_nat (digits_value 10 ip)
         else let fp = tl fr in
           if ip = [] \<and> fp = [] then None
           else case (digits_acc 10 0 ip, digits_acc 10 0 fp) of
                  (Some i, Some f) \<Rightarrow> Some (of_nat i + of_nat f / 10 ^ length fp)
                | _ \<Rightarrow> None)"

definition unsigned_decimal :: "string \<Rightarrow> jsnum" where
  "unsigned_decimal s =
     (if s = ''Infinity'' then PInf
      else let mant = takeWhile (\<lambda>c. \<not> is_exp_mark c) s;
               rest = dropWhile (\<lambda>c. \<not> is_exp_mark c) s;
               ex = (if rest = [] then Some 0 else parse_exponent (tl rest))
           in case (parse_mantissa mant, ex) of
                (Some m, Some e) \<Rightarrow> Finite (scale10 m e)
              | _ \<Rightarrow> NaN)"

fun negate :: "jsnum \<Rightarrow> jsnum" where
  "negate (Finite x) = Finite (- x)"
| "negate PInf = NInf"
| "negate NInf = PInf"
| "negate NegZero = Finite 0"
| "negate NaN = NaN"

definition signed_decimal :: "string \<Rightarrow> jsnum" where
  "signed_decimal s =
     (case s of
        [] \<Rightarrow> NaN
      | c # r \<Rightarrow>
          if c = CHR ''+'' then unsigned_decimal r
          else if c = CHR ''-'' then negate (unsigned_decimal r)
          else unsigned_decimal s)"

definition radix_literal :: "nat \<Rightarrow> string \<Rightarrow> jsnum" where
  "radix_literal base ds =
     (case digits_value base ds of None \<Rightarrow> NaN | Some n \<Rightarrow> Finite (of_nat n))"

definition numeric_text_value :: "string \<Rightarrow> jsnum" where
  "numeric_text_value s =
     (let t = trim_ws s in
      if t = [] then Finite 0
      else case t of
             c0 # c1 # ds \<Rightarrow>
               if c0 = CHR ''0'' \<and> (c1 = CHR ''x'' \<or> c1 = CHR ''X'') then radix_literal 16 ds
               else if c0 = CHR ''0'' \<and> (c1 = CHR ''o'' \<or> c1 = CHR ''O'') then radix_literal 8 ds
               else if c0 = CHR ''0'' \<and> (c1 = CHR ''b'' \<or> c1 = CHR ''B'') then radix_literal 2 ds
               else signed_decimal t
           | _ \<Rightarrow> signed_decimal t)"

subsection \<open>Rounding to binary64\<close>

text \<open>
  Round to nearest, ties to even, with 53 significant bits, exponents from \<open>-1022\<close> to
  \<open>1023\<close> and subnormals below: \<open>round_binary64 neg a\<close> is the binary64 value of the
  magnitude \<open>a \<ge> 0\<close> with the sign \<open>neg\<close>. A magnitude that rounds to \<open>2^1024\<close> or more
  gives an infinity, one that rounds to nothing gives the zero of that sign.
\<close>

definition pow2 :: "int \<Rightarrow> rat" where
  "pow2 e = (if 0 \<le> e then 2 ^ nat e else 1 / 2 ^ nat (- e))"

definition floor_log2 :: "rat \<Rightarrow> int" where
  "floor_log2 a =
     (let (p, q) = quotient_of a;
          e0 = int (floorlog 2 (nat p)) - int (floorlog 2 (nat q))
      in if pow2 e0 \<le> a then e0 else e0 - 1)"

definition round_half_even :: "rat \<Rightarrow> int" where
  "round_half_even r =
     (let n = \<lfloor>r\<rfloor>; d = r - of_int n
      in if d < 1 / 2 then n
         else if 1 / 2 < d then n + 1
         else if even n then n else n + 1)"

definition signed_zero :: "bool \<Rightarrow> jsnum" where
  "signed_zero neg = (if neg then NegZero else Finite 0)"

definition signed_infinity :: "bool \<Rightarrow> jsnum" where
  "signed_infinity neg = (if neg then NInf else PInf)"

definition round_binary64 :: "bool \<Rightarrow> rat \<Rightarrow> jsnum" where
  "round_binary64 neg a =
     (if a = 0 then signed_zero neg
      else let e = max (floor_log2 a) (- 1022);
               u = pow2 (e - 52);
               y = of_int (round_half_even (a / u)) * u
           in if pow2 1024 \<le> y then signed_infinity neg
              else if y = 0 then signed_zero neg
              else Finite (if neg then - y else y))"

text \<open>\<open>StringToNumber\<close>: the value of the text, rounded. A text that starts with a minus
  sign and denotes zero gives the negative zero.\<close>

definition string_to_number :: "string \<Rightarrow> jsnum" where
  "string_to_number s =
     (case numeric_text_value s of
        Finite x \<Rightarrow> round_binary64 (take 1 (trim_ws s) = ''-'') \<bar>x\<bar>
      | n \<Rightarrow> n)"

subsection \<open>Conversion to a number, \<open>isNaN\<close>, division\<close>

text \<open>
  \<open>ToNumber\<close> of an object first turns it into a primitive (\<open>ToPrimitive\<close> with hint
  number, \<open>OrdinaryToPrimitive\<close> in the language standard): it reads the object's
  \<open>valueOf\<close> and calls it if it is a function, then does the same with \<open>toString\<close>, and
  returns the first result that is not an object; when neither call gives one, it throws
  a \<open>TypeError\<close>. For a data object \<open>valueOf\<close> is inherited and returns the object
  itself. \<open>toString\<close> is inherited too and yields \<open>[object Object]\<close>, unless the object
  has an own property named \<open>toString\<close>: that property hides the inherited method and is
  not a function, so nothing is called and the conversion throws
  (\<open>isNaN({toString: 1})\<close> throws "Cannot convert object to primitive value").
  An array's \<open>toString\<close> joins the strings of its elements, and the string of an element
  is found the same way, so it throws when an element is such an object.
\<close>

fun convertible :: "jsval \<Rightarrow> bool" where
  "convertible (JObj kvs) = (''toString'' \<notin> set (map fst kvs))"
| "convertible (JArr xs) = list_all convertible xs"
| "convertible v = True"

text \<open>
  The number that \<open>ToNumber\<close> returns when it does not throw. An array is converted
  through its string, the elements joined by commas with \<open>null\<close> and \<open>undefined\<close>
  elements as empty strings: the empty array gives \<open>0\<close>, a one-element array gives what
  its element's string reads as (for a number element the number itself, since a
  number's string reads back as that number; the string of the negative zero is \<open>0\<close>),
  and a longer array gives \<open>NaN\<close> because of the comma.
\<close>

fun to_number :: "jsval \<Rightarrow> jsnum" where
  "to_number JUndefined = NaN"
| "to_number JNull = Finite 0"
| "to_number (JBool b) = Finite (if b then 1 else 0)"
| "to_number (JNum n) = n"
| "to_number (JStr s) = string_to_number s"
| "to_number (JObj kvs) = NaN"
| "to_number (JArr []) = Finite 0"
| "to_number (JArr [JUndefined]) = Finite 0"
| "to_number (JArr [JNull]) = Finite 0"
| "to_number (JArr [JBool b]) = NaN"
| "to_number (JArr [JNum n]) = (if n = NegZero then Finite 0 else n)"
| "to_number (JArr [JStr s]) = string_to_number s"
| "to_number (JArr [JObj kvs]) = NaN"
| "to_number (JArr [JArr ys]) = to_number (JArr ys)"
| "to_number (JArr (x # y # zs)) = NaN"

definition ToNumber :: "jsval \<Rightarrow> jsnum res" where
  "ToNumber v = (if convertible v then Inr (to_number v) else Inl TypeError)"

definition isNaN :: "jsval \<Rightarrow> bool res" where
  "isNaN v = (case ToNumber v of Inl e \<Rightarrow> Inl e | Inr n \<Rightarrow> Inr (n = NaN))"

text \<open>
  The operator \<open>/\<close> on numbers: \<open>NaN\<close> for a \<open>NaN\<close> operand, for two infinities and for
  two zeros; otherwise the sign is negative when the signs of the operands differ, an
  infinity divided or a division by a zero gives an infinity, a zero divided or a
  division by an infinity gives a zero, and two finite operands give their exact
  quotient rounded to binary64.
\<close>

fun negative :: "jsnum \<Rightarrow> bool" where
  "negative (Finite x) = (x < 0)"
| "negative NegZero = True"
| "negative NInf = True"
| "negative n = False"

definition is_zero :: "jsnum \<Rightarrow> bool" where
  "is_zero n = (n = Finite 0 \<or> n = NegZero)"

definition is_infinite :: "jsnum \<Rightarrow> bool" where
  "is_infinite n = (n = PInf \<or> n = NInf)"

definition js_div :: "jsnum \<Rightarrow> jsnum \<Rightarrow> jsnum" where
  "js_div x y =
     (if x = NaN \<or> y = NaN then NaN
      else let neg = (negative x \<noteq> negative y) in
        if is_infinite x then (if is_infinite y then NaN else signed_infinity neg)
        else if is_infinite y then signed_zero neg
        else if is_zero y then (if is_zero x then NaN else signed_infinity neg)
        else if is_zero x then signed_zero neg
        else case (x, y) of
               (Finite a, Finite b) \<Rightarrow> round_binary64 neg \<bar>a / b\<bar>
             | _ \<Rightarrow> NaN)"

text \<open>The operator \<open>/\<close> on values: the left operand is converted to a number, then the
  right one.\<close>

definition divide_values :: "jsval \<Rightarrow> jsval \<Rightarrow> jsnum res" where
  "divide_values a b =
     (case ToNumber a of
        Inl e \<Rightarrow> Inl e
      | Inr x \<Rightarrow> (case ToNumber b of Inl e \<Rightarrow> Inl e | Inr y \<Rightarrow> Inr (js_div x y)))"

subsection \<open>\<open>Number.prototype.toFixed\<close>\<close>

fun dec_digits :: "nat \<Rightarrow> string" where
  "dec_digits n =
     (if n < 10 then [char_of (48 + n)]
      else dec_digits (n div 10) @ [char_of (48 + n mod 10)])"

declare dec_digits.simps [simp del]

text \<open>
  For a non-negative \<open>x\<close> below \<open>10^21\<close>: the integer \<open>n\<close> with \<open>n / 10^f\<close> nearest to
  \<open>x\<close> (the larger one of two), its digits padded with zeros to at least \<open>f + 1\<close>
  places, and a point before the last \<open>f\<close> digits when \<open>f\<close> is not zero.
  From \<open>10^21\<close> on the result is the number's own string (\<open>Number::toString\<close>), which
  depends on the binary64 value; it is the parameter \<open>num_string\<close>.
\<close>

definition fixed_digits :: "(rat \<Rightarrow> string) \<Rightarrow> rat \<Rightarrow> nat \<Rightarrow> string" where
  "fixed_digits num_string x f =
     (if 10 ^ 21 \<le> x then num_string x
      else let n = nat \<lfloor>x * 10 ^ f + 1 / 2\<rfloor>;
               m = dec_digits n;
               m' = replicate (f + 1 - length m) (CHR ''0'') @ m;
               k = length m'
           in if f = 0 then m
              else take (k - f) m' @ ''.'' @ drop (k - f) m')"

text \<open>The argument is the number of decimals after its conversion to an integer; outside
  \<open>0..100\<close> the call throws a \<open>RangeError\<close>, before it looks at the number.\<close>

definition toFixed :: "(rat \<Rightarrow> string) \<Rightarrow> jsnum \<Rightarrow> int \<Rightarrow> string res" where
  "toFixed num_string x fractionDigits =
     (if fractionDigits < 0 \<or> 100 < fractionDigits then Inl RangeError
      else case x of
             NaN \<Rightarrow> Inr ''NaN''
           | PInf \<Rightarrow> Inr ''Infinity''
           | NInf \<Rightarrow> Inr ''-Infinity''
           | NegZero \<Rightarrow> Inr (fixed_digits num_string 0 (nat fractionDigits))
           | Finite r \<Rightarrow>
               Inr ((if r < 0 then ''-'' else [])
                    @ fixed_digits num_string \<bar>r\<bar> (nat fractionDigits)))"

section \<open>The metric value normalizer (\<open>frontend/src/FileUpload.jsx\<close>)\<close>

text \<open>
  \<^verbatim>\<open>
  const safeNumber = (value, decimals = 2) =>
    value !== undefined && value !== null && !isNaN(value)
      ? Number(value).toFixed(decimals)
      : "N/A";
  \<close>
  The default of \<open>decimals\<close> applies when the argument is absent (\<open>None\<close>).
\<close>

definition safeNumber :: "(rat \<Rightarrow> string) \<Rightarrow> jsval \<Rightarrow> int option \<Rightarrow> string res" where
  "safeNumber num_string v decimals_arg =
     (let decimals = (case decimals_arg of None \<Rightarrow> 2 | Some d \<Rightarrow> d)
      in if v \<noteq> JUndefined \<and> v \<noteq> JNull then
           (case isNaN v of
              Inl e \<Rightarrow> Inl e
            | Inr nan \<Rightarrow>
                if \<not> nan then
                  (case ToNumber v of
                     Inl e \<Rightarrow> Inl e
                   | Inr n \<Rightarrow> toFixed num_string n decimals)
                else Inr ''N/A'')
         else Inr ''N/A'')"

text \<open>
  \<^verbatim>\<open>
  const safeDivide = (a, b) =>
    b && !isNaN(a / b) && b !== 0 ? a / b : 0;
  \<close>
\<close>

definition safeDivide :: "jsval \<Rightarrow> jsval \<Rightarrow> jsnum res" where
  "safeDivide a b =
     (if truthy b then
        (case divide_values a b of
           Inl e \<Rightarrow> Inl e
         | Inr q \<Rightarrow>
             if q \<noteq> NaN \<and> b \<noteq> JNum (Finite 0) \<and> b \<noteq> JNum NegZero
             then divide_values a b
             else Inr (Finite 0))
      else Inr (Finite 0))"

text \<open>
  \<^verbatim>\<open>
  const chartValue = (value) =>
      (value !== undefined && value !== null && !isNaN(value)) ? Number(value) : null;
  \<close>
\<close>

definition chartValue :: "jsval \<Rightarrow> jsval res" where
  "chartValue v =
     (if v \<noteq> JUndefined \<and> v \<noteq> JNull then
        (case isNaN v of
           Inl e \<Rightarrow> Inl e
         | Inr nan \<Rightarrow>
             if \<not> nan then
               (case ToNumber v of Inl e \<Rightarrow> Inl e | Inr n \<Rightarrow> Inr (JNum n))
             else Inr JNull)
      else Inr JNull)"

section \<open>The comparison schema builder (\<open>frontend/src/FileUpload.jsx\<close>)\<close>

subsection \<open>Property reads\<close>

text \<open>
  Reading a property of \<open>undefined\<close> or \<open>null\<close> throws a \<open>TypeError\<close>; every other
  value can be read. An object yields its own property or \<open>undefined\<close>; arrays and
  strings have a \<open>length\<close>. The program reads only the names \<open>scidb\<close>, \<open>mapreduce\<close>,
  the metric names, \<open>color\<close>, \<open>name\<close>, \<open>value\<close> and \<open>length\<close>: none of them is an
  array index or a name inherited from a prototype, so these cases are all there is.
\<close>

definition bind_res :: "'a res \<Rightarrow> ('a \<Rightarrow> 'b res) \<Rightarrow> 'b res" where
  "bind_res r f = (case r of Inl e \<Rightarrow> Inl e | Inr x \<Rightarrow> f x)"

fun collect :: "'a res list \<Rightarrow> 'a list res" where
  "collect [] = Inr []"
| "collect (r # rs) = bind_res r (\<lambda>x. bind_res (collect rs) (\<lambda>xs. Inr (x # xs)))"

definition get_prop :: "jsval \<Rightarrow> string \<Rightarrow> jsval res" where
  "get_prop v k =
     (case v of
        JUndefined \<Rightarrow> Inl TypeError
      | JNull \<Rightarrow> Inl TypeError
      | JObj kvs \<Rightarrow> Inr (case map_of kvs k of None \<Rightarrow> JUndefined | Some x \<Rightarrow> x)
      | JArr xs \<Rightarrow> Inr (if k = ''length'' then JNum (Finite (of_nat (length xs))) else JUndefined)
      | JStr s \<Rightarrow> Inr (if k = ''length'' then JNum (Finite (of_nat (length s))) else JUndefined)
      | _ \<Rightarrow> Inr JUndefined)"

text \<open>Optional chaining \<open>v?.k\<close>.\<close>

definition opt_prop :: "jsval \<Rightarrow> string \<Rightarrow> jsval res" where
  "opt_prop v k = (if v = JUndefined \<or> v = JNull then Inr JUndefined else get_prop v k)"

text \<open>\<open>data.engine?.k\<close>\<close>

definition engine_field :: "jsval \<Rightarrow> string \<Rightarrow> string \<Rightarrow> jsval res" where
  "engine_field data engine k = bind_res (get_prop data engine) (\<lambda>e. opt_prop e k)"

subsection \<open>Rows\<close>

record row =
  name :: string
  scidb :: jsval
  mapreduce :: jsval

text \<open>An object literal \<open>{name, scidb, mapreduce}\<close>: the two values are computed in this
  order, and a throw in either leaves no row.\<close>

definition metric_row :: "string \<Rightarrow> jsval res \<Rightarrow> jsval res \<Rightarrow> row res" where
  "metric_row n a b =
     bind_res a (\<lambda>x. bind_res b (\<lambda>y. Inr \<lparr>name = n, scidb = x, mapreduce = y\<rparr>))"

text \<open>\<open>chartValue(safeDivide(v, d))\<close>\<close>

definition chart_ratio :: "rat \<Rightarrow> jsval \<Rightarrow> jsval res" where
  "chart_ratio d v = bind_res (safeDivide v (JNum (Finite d))) (\<lambda>q. chartValue (JNum q))"

text \<open>
  \<^verbatim>\<open>
  const performanceMetrics = (data) =>
    data
      ? [ { name: "Execution Time (s)",
            scidb: chartValue(data.scidb?.execution_time_seconds),
            mapreduce: chartValue(data.mapreduce?.execution_time_seconds) },
          { name: "Memory (MB)",
            scidb: chartValue(safeDivide(data.scidb?.memory_usage_snapshot_mb, 1)),
            mapreduce: chartValue(safeDivide(data.mapreduce?.memory_usage_avg_mb, 1)) },
          { name: "CPU (%)",
            scidb: chartValue(data.scidb?.cpu_percent_snapshot),
            mapreduce: chartValue(data.mapreduce?.cpu_percent_avg) },
          { name: "Throughput (rows/s)",
            scidb: chartValue(data.scidb?.throughput_rows_per_sec),
            mapreduce: chartValue(data.mapreduce?.throughput_rows_per_sec) } ]
      : [];
  \<close>
\<close>

definition performanceMetrics :: "jsval \<Rightarrow> row list res" where
  "performanceMetrics data =
     (if truthy data then
        collect
          [metric_row ''Execution Time (s)''
             (bind_res (engine_field data ''scidb'' ''execution_time_seconds'') chartValue)
             (bind_res (engine_field data ''mapreduce'' ''execution_time_seconds'') chartValue),
           metric_row ''Memory (MB)''
             (bind_res (engine_field data ''scidb'' ''memory_usage_snapshot_mb'') (chart_ratio 1))
             (bind_res (engine_field data ''mapreduce'' ''memory_usage_avg_mb'') (chart_ratio 1)),
           metric_row ''CPU (%)''
             (bind_res (engine_field data ''scidb'' ''cpu_percent_snapshot'') chartValue)
             (bind_res (engine_field data ''mapreduce'' ''cpu_percent_avg'') chartValue),
           metric_row ''Throughput (rows/s)''
             (bind_res (engine_field data ''scidb'' ''throughput_rows_per_sec'') chartValue)
             (bind_res (engine_field data ''mapreduce'' ''throughput_rows_per_sec'') chartValue)]
      else Inr [])"

text \<open>
  \<^verbatim>\<open>
  const dataMetrics = (data) =>
    data
      ? [ { name: "Rows Processed",
            scidb: chartValue(data.scidb?.row_count),
            mapreduce: chartValue(data.mapreduce?.row_count) },
          { name: "Columns",
            scidb: chartValue(data.scidb?.column_count),
            mapreduce: chartValue(data.mapreduce?.column_count) },
          { name: "File Size (KB)",
            scidb: chartValue(safeDivide(data.scidb?.file_size_bytes, 1024)),
            mapreduce: chartValue(safeDivide(data.mapreduce?.file_size_bytes, 1024)) },
          { name: "Avg Row Size (bytes)",
            scidb: chartValue(data.scidb?.avg_row_size_bytes),
            mapreduce: chartValue(data.mapreduce?.avg_row_size_bytes) } ]
      : [];
  \<close>
\<close>

definition dataMetrics :: "jsval \<Rightarrow> row list res" where
  "dataMetrics data =
     (if truthy data then
        collect
          [metric_row ''Rows Processed''
             (bind_res (engine_field data ''scidb'' ''row_count'') chartValue)
             (bind_res (engine_field data ''mapreduce'' ''row_count'') chartValue),
           metric_row ''Columns''
             (bind_res (engine_field data ''scidb'' ''column_count'') chartValue)
             (bind_res (engine_field data ''mapreduce'' ''column_count'') chartValue),
           metric_row ''File Size (KB)''
             (bind_res (engine_field data ''scidb'' ''file_size_bytes'') (chart_ratio 1024))
             (bind_res (engine_field data ''mapreduce'' ''file_size_bytes'') (chart_ratio 1024)),
           metric_row ''Avg Row Size (bytes)''
             (bind_res (engine_field data ''scidb'' ''avg_row_size_bytes'') chartValue)
             (bind_res (engine_field data ''mapreduce'' ''avg_row_size_bytes'') chartValue)]
      else Inr [])"

text \<open>
  \<^verbatim>\<open>
  const systemMetrics = (data) =>
    data
      ? [ { name: "Memory Usage (%)",
            scidb: chartValue(data.scidb?.memory_percent_snapshot),
            mapreduce: chartValue(data.mapreduce?.memory_percent_avg) } ]
      : [];
  \<close>
\<close>

definition systemMetrics :: "jsval \<Rightarrow> row list res" where
  "systemMetrics data =
     (if truthy data then
        collect
          [metric_row ''Memory Usage (%)''
             (bind_res (engine_field data ''scidb'' ''memory_percent_snapshot'') chartValue)
             (bind_res (engine_field data ''mapreduce'' ''memory_percent_avg'') chartValue)]
      else Inr [])"

section \<open>The presentation layer (\<open>frontend/src/FileUpload.jsx\<close>)\<close>

text \<open>
  What a component returns: an element with its tag, the properties that depend on data
  (fixed style properties are left out) and its children; literal text; an embedded
  expression value (React draws \<open>null\<close>, \<open>undefined\<close> and booleans as nothing); or the
  chart library's bar chart over its data rows.
\<close>

datatype node =
    Elem string "(string \<times> jsval) list" "node list"
  | Txt string
  | Expr jsval
  | BarChart "row list"

fun draws_nothing :: "node \<Rightarrow> bool" where
  "draws_nothing (Expr v) = (case v of JUndefined \<Rightarrow> True | JNull \<Rightarrow> True | JBool b \<Rightarrow> True | _ \<Rightarrow> False)"
| "draws_nothing n = False"

fun has_chart :: "node \<Rightarrow> bool" where
  "has_chart (Elem t ps cs) = list_ex has_chart cs"
| "has_chart (BarChart rs) = True"
| "has_chart (Txt s) = False"
| "has_chart (Expr v) = False"

subsection \<open>The tooltip\<close>

text \<open>
  One entry of the payload:
  \<^verbatim>\<open>
  if (!entry || entry.color === undefined) return null;
  return (
    <p key={index} style={{ color: entry.color }}>
      {entry.name}:{" "}
      { typeof entry.value === "number" && !isNaN(entry.value) && entry.value !== null
          ? entry.value.toFixed(2)
          : "N/A" }
    </p>);
  \<close>
\<close>

definition entry_value_text :: "(rat \<Rightarrow> string) \<Rightarrow> jsval \<Rightarrow> string res" where
  "entry_value_text num_string v =
     (case v of
        JNum n \<Rightarrow> if n \<noteq> NaN then toFixed num_string n 2 else Inr ''N/A''
      | _ \<Rightarrow> Inr ''N/A'')"

definition tooltip_entry :: "(rat \<Rightarrow> string) \<Rightarrow> jsval \<Rightarrow> node res" where
  "tooltip_entry num_string entry =
     (if \<not> truthy entry then Inr (Expr JNull)
      else bind_res (get_prop entry ''color'') (\<lambda>color.
        if color = JUndefined then Inr (Expr JNull)
        else bind_res (get_prop entry ''name'') (\<lambda>nm.
             bind_res (get_prop entry ''value'') (\<lambda>v.
             bind_res (entry_value_text num_string v) (\<lambda>txt.
               Inr (Elem ''p'' [(''color'', color)] [Expr nm, Txt '':'', Txt '' '', Txt txt]))))))"

text \<open>\<open>payload.map(f)\<close>: only an array has the method; calling it on anything else
  throws. The callback runs on the elements in order and the first throw ends the call.\<close>

definition array_map :: "(jsval \<Rightarrow> node res) \<Rightarrow> jsval \<Rightarrow> node list res" where
  "array_map f v = (case v of JArr xs \<Rightarrow> collect (map f xs) | _ \<Rightarrow> Inl TypeError)"

text \<open>
  \<^verbatim>\<open>
  const CustomTooltip = ({ active, payload, label }) => {
    if (active && payload && payload.length) {
      return (
        <div style={{ ... }}>
          <p>{label}</p>
          {payload.map((entry, index) => { ... })}
        </div>);
    }
    return null;
  };
  \<close>
\<close>

definition CustomTooltip :: "(rat \<Rightarrow> string) \<Rightarrow> jsval \<Rightarrow> jsval \<Rightarrow> jsval \<Rightarrow> node res" where
  "CustomTooltip num_string active payload label =
     (if truthy active \<and> truthy payload then
        bind_res (get_prop payload ''length'') (\<lambda>len.
          if truthy len then
            bind_res (array_map (tooltip_entry num_string) payload) (\<lambda>entries.
              Inr (Elem ''div'' [] (Elem ''p'' [] [Expr label] # entries)))
          else Inr (Expr JNull))
      else Inr (Expr JNull))"

subsection \<open>Charts and cards\<close>

text \<open>
  \<^verbatim>\<open>
  const renderChart = (data, title, colors = ["#4f46e5", "#10b981"]) => {
    const filteredData = data.filter(item =>
        item.scidb !== null || item.mapreduce !== null);
    return (
      <div style={{ ... }}>
        <h4>{title}</h4>
        <ResponsiveContainer ...>
          <BarChart data={filteredData} ...> ... </BarChart>
        </ResponsiveContainer>
      </div>);
  };
  \<close>
\<close>

definition renderChart :: "row list \<Rightarrow> string \<Rightarrow> node" where
  "renderChart data title =
     (let filteredData = filter (\<lambda>item. scidb item \<noteq> JNull \<or> mapreduce item \<noteq> JNull) data
      in Elem ''div'' [] [Elem ''h4'' [] [Txt title], BarChart filteredData])"

text \<open>
  \<^verbatim>\<open>
  const MetricCard = ({ title, scidbValue, mapreduceValue, format = (v) => v }) => (
    <div style={{ ... }}>
      <h5>{title}</h5>
      <p>SciDB: {format(scidbValue)}</p>
      <p>MapReduce: {format(mapreduceValue)}</p>
    </div>);
  \<close>
  Every card of the program gets the two strings that \<open>safeNumber\<close> returns and a
  \<open>format\<close> that appends a unit to the string.
\<close>

definition MetricCard :: "string \<Rightarrow> string \<Rightarrow> string \<Rightarrow> (string \<Rightarrow> string) \<Rightarrow> node" where
  "MetricCard title scidbValue mapreduceValue format =
     Elem ''div'' []
       [Elem ''h5'' [] [Txt title],
        Elem ''p'' [] [Txt ''SciDB: '', Txt (format scidbValue)],
        Elem ''p'' [] [Txt ''MapReduce: '', Txt (format mapreduceValue)]]"

text \<open>
  \<^verbatim>\<open>
  <MetricCard title=T
    scidbValue={safeNumber(response.scidb?.K1, D)}
    mapreduceValue={safeNumber(response.mapreduce?.K2, D)}
    format={(v) => `${v}U`} />
  \<close>
\<close>

definition summary_card ::
  "(rat \<Rightarrow> string) \<Rightarrow> jsval \<Rightarrow> string \<Rightarrow> string \<Rightarrow> string \<Rightarrow> int \<Rightarrow> string \<Rightarrow> node res" where
  "summary_card num_string response title k1 k2 d unit_text =
     bind_res (bind_res (engine_field response ''scidb'' k1) (\<lambda>v. safeNumber num_string v (Some d)))
       (\<lambda>a. bind_res (bind_res (engine_field response ''mapreduce'' k2) (\<lambda>v. safeNumber num_string v (Some d)))
         (\<lambda>b. Inr (MetricCard title a b (\<lambda>v. v @ unit_text))))"

subsection \<open>The detail lists\<close>

text \<open>
  \<^verbatim>\<open>
  {Object.entries(response.scidb || {}).map(([key, val]) => (
    <p key={key}><strong>{key.replace(/_/g, " ")}:</strong>
       {typeof val === "object" ? JSON.stringify(val) : String(val)}</p>))}
  \<close>
  \<open>Object.entries\<close> lists an object's own properties (the association list is taken to
  be in the object's enumeration order), the indexed elements of an array and the
  characters of a string; a number or boolean has none. The text of a value
  (\<open>JSON.stringify\<close> or \<open>String\<close>) is the parameter \<open>value_text\<close>.
\<close>

definition own_entries :: "jsval \<Rightarrow> (string \<times> jsval) list" where
  "own_entries v =
     (case v of
        JObj kvs \<Rightarrow> kvs
      | JArr xs \<Rightarrow> zip (map dec_digits [0..<length xs]) xs
      | JStr s \<Rightarrow> zip (map dec_digits [0..<length s]) (map (\<lambda>c. JStr [c]) s)
      | _ \<Rightarrow> [])"

definition detail_line :: "(jsval \<Rightarrow> string) \<Rightarrow> string \<times> jsval \<Rightarrow> node" where
  "detail_line value_text kv =
     Elem ''p'' []
       [Elem ''strong'' [] [Txt (map (\<lambda>c. if c = CHR ''_'' then CHR '' '' else c) (fst kv)), Txt '':''],
        Txt '' '', Txt (value_text (snd kv))]"

definition detail_list :: "(jsval \<Rightarrow> string) \<Rightarrow> string \<Rightarrow> jsval \<Rightarrow> node" where
  "detail_list value_text heading engine =
     Elem ''div'' []
       (Elem ''h4'' [] [Txt heading]
        # map (detail_line value_text) (own_entries (if truthy engine then engine else JObj [])))"

subsection \<open>The component\<close>

text \<open>
  The part of the returned tree under \<open>{response && ( ... )}\<close>, for a truthy
  \<open>response\<close>: the four cards, the three charts and the two detail lists.
\<close>

definition summary_section ::
  "(rat \<Rightarrow> string) \<Rightarrow> (jsval \<Rightarrow> string) \<Rightarrow> jsval \<Rightarrow> row list \<Rightarrow> row list \<Rightarrow> row list \<Rightarrow> node res" where
  "summary_section num_string value_text response perfData dataStats sysStats =
     bind_res
       (collect
          [summary_card num_string response ''Execution Time''
             ''execution_time_seconds'' ''execution_time_seconds'' 3 ''s'',
           summary_card num_string response ''Throughput''
             ''throughput_rows_per_sec'' ''throughput_rows_per_sec'' 0 '' rows/s'',
           summary_card num_string response ''Memory Usage''
             ''memory_usage_snapshot_mb'' ''memory_usage_avg_mb'' 1 '' MB'',
           summary_card num_string response ''CPU Usage''
             ''cpu_percent_snapshot'' ''cpu_percent_avg'' 1 ''%''])
       (\<lambda>cards.
          bind_res (get_prop response ''scidb'') (\<lambda>s.
          bind_res (get_prop response ''mapreduce'') (\<lambda>m.
            Inr (Elem ''div'' []
                   [Elem ''h3'' [] [Txt ''Performance Summary''],
                    Elem ''div'' [] cards,
                    Elem ''div'' []
                      [renderChart perfData ''Performance Metrics'',
                       renderChart dataStats ''Data Metrics'',
                       renderChart sysStats ''System Metrics''],
                    Elem ''h3'' [] [Txt ''Detailed Metrics''],
                    Elem ''div'' []
                      [detail_list value_text ''SciDB Details'' s,
                       detail_list value_text ''MapReduce Details'' m]]))))"

text \<open>
  The component's state is \<open>file\<close>, \<open>response\<close> (initially \<open>null\<close>) and \<open>loading\<close>; what it
  returns depends on \<open>response\<close> and \<open>loading\<close>:
  \<^verbatim>\<open>
  const perfData = performanceMetrics(response);
  const dataStats = dataMetrics(response);
  const sysStats = systemMetrics(response);
  return (
    <div style={{ ... }}>
      <h2>File Upload & Database Benchmark</h2>
      <div style={{ ... }}>
        <input type="file" onChange={...} />
        <button onClick={handleUpload} disabled={loading}>
          {loading ? "Processing..." : "Upload & Process"}
        </button>
      </div>
      {response && ( <div style={{ marginTop: '30px' }}> ... </div> )}
    </div>);
  \<close>
\<close>

definition upload_form :: "bool \<Rightarrow> node" where
  "upload_form loading =
     Elem ''div'' []
       [Elem ''input'' [] [],
        Elem ''button'' [(''disabled'', JBool loading)]
          [Txt (if loading then ''Processing...'' else ''Upload & Process'')]]"

definition FileUpload :: "(rat \<Rightarrow> string) \<Rightarrow> (jsval \<Rightarrow> string) \<Rightarrow> jsval \<Rightarrow> bool \<Rightarrow> node res" where
  "FileUpload num_string value_text response loading =
     bind_res (performanceMetrics response) (\<lambda>perfData.
     bind_res (dataMetrics response) (\<lambda>dataStats.
     bind_res (systemMetrics response) (\<lambda>sysStats.
     bind_res (if truthy response
               then summary_section num_string value_text response perfData dataStats sysStats
               else Inr (Expr response)) (\<lambda>section.
       Inr (Elem ''div'' []
              [Elem ''h2'' [] [Txt ''File Upload & Database Benchmark''],
               upload_form loading,
               section])))))"

section \<open>The comparison report store (\<open>backend/model/report.js\<close>)\<close>

text \<open>
  \<^verbatim>\<open>
  const reportSchema = new mongoose.Schema({
    faster_system: { type: String, required: true },
    execution_time_diff: { type: Number, required: true },
    cpu_diff: { type: Number, required: true },
    memory_diff: { type: Number, required: true },
    disk_read_diff: { type: Number, required: true },
    disk_write_diff: { type: Number, required: true },
  }, { timestamps: true });
  \<close>
  A schema is the list of its paths, each with its type and whether it is required.
\<close>

datatype schema_type = SchemaString | SchemaNumber

record schema_path =
  path_name :: string
  path_type :: schema_type
  required :: bool

definition reportSchema :: "schema_path list" where
  "reportSchema =
     [\<lparr>path_name = ''faster_system'', path_type = SchemaString, required = True\<rparr>,
      \<lparr>path_name = ''execution_time_diff'', path_type = SchemaNumber, required = True\<rparr>,
      \<lparr>path_name = ''cpu_diff'', path_type = SchemaNumber, required = True\<rparr>,
      \<lparr>path_name = ''memory_diff'', path_type = SchemaNumber, required = True\<rparr>,
      \<lparr>path_name = ''disk_read_diff'', path_type = SchemaNumber, required = True\<rparr>,
      \<lparr>path_name = ''disk_write_diff'', path_type = SchemaNumber, required = True\<rparr>]"










section \<open>The upload ingress (\<open>backend/routes/datasets.js\<close>)\<close>

text \<open>
  Three functions of the platform are parameters: \<open>path.extname\<close>, \<open>path.join\<close> and the
  generator behind \<open>uuidv4()\<close>. The generator is a sequence of identifiers and a count of
  the draws made so far; each call returns the next one.
\<close>

record platform =
  extname :: "string \<Rightarrow> string"
  path_join :: "string \<Rightarrow> string \<Rightarrow> string"
  uuid_sequence :: "nat \<Rightarrow> string"

definition uuidv4 :: "platform \<Rightarrow> nat \<Rightarrow> string \<times> nat" where
  "uuidv4 pf draws = (uuid_sequence pf draws, Suc draws)"

text \<open>The file part that a request carries in its multipart field \<open>dataset\<close>, and what
  the upload middleware leaves in \<open>req.file\<close>.\<close>

record file_part =
  originalname :: string
  part_size :: nat

record req_file =
  filename :: string
  path :: string
  size_bytes :: nat

text \<open>
  \<^verbatim>\<open>
  const storage = multer.diskStorage({
    destination: function (req, file, cb) { cb(null, './uploads/'); },
    filename: function (req, file, cb) {
      const uniqueName = uuidv4() + path.extname(file.originalname);
      cb(null, uniqueName);
    }
  });
  const upload = multer({
    storage: storage,
    limits: { fileSize: 5 * 1024 * 1024 * 1024 }
  });
  \<close>
\<close>

definition destination :: string where
  "destination = ''./uploads/''"

definition storage_filename :: "platform \<Rightarrow> nat \<Rightarrow> file_part \<Rightarrow> string \<times> nat" where
  "storage_filename pf draws file =
     (let (u, draws') = uuidv4 pf draws
      in (u @ extname pf (originalname file), draws'))"

definition fileSize :: nat where
  "fileSize = 5 * 1024 * 1024 * 1024"

text \<open>
  \<open>upload.single('dataset')\<close>, the library's middleware: without a file part it leaves
  \<open>req.file\<close> undefined; with one it asks the storage for the destination and the name
  and writes the file there; a file of more than \<open>limits.fileSize\<close> bytes ends the request
  with the error \<open>LIMIT_FILE_SIZE\<close> (the partial file is removed and the route's handler
  does not run).
\<close>

datatype upload_error = LIMIT_FILE_SIZE

definition upload_single :: "platform \<Rightarrow> nat \<Rightarrow> file_part option \<Rightarrow> (upload_error + req_file option) \<times> nat" where
  "upload_single pf draws part =
     (case part of
        None \<Rightarrow> (Inr None, draws)
      | Some file \<Rightarrow>
          let (fname, draws') = storage_filename pf draws file
          in if fileSize < part_size file then (Inl LIMIT_FILE_SIZE, draws')
             else (Inr (Some \<lparr>filename = fname, path = path_join pf destination fname,
                               size_bytes = part_size file\<rparr>), draws'))"

text \<open>
  \<^verbatim>\<open>
  router.post('/upload', upload.single('dataset'), async (req, res) => {
    if (!req.file) {
      return res.status(400).json({ error: 'Dataset file is required' });
    }
    try {
      const uploadId = uuidv4();
      res.status(201).json({
        message: 'Dataset uploaded successfully',
        uploadId: uploadId,
        filename: req.file.filename,
        path: req.file.path,
        size: req.file.size,
      });
    } catch (error) {
      res.status(500).json({ error: error.message });
    }
  });
  \<close>
  Nothing in the \<open>try\<close> block throws in this model, so the \<open>catch\<close> branch has no case.
\<close>

datatype http_result =
    Response nat "(string \<times> jsval) list"
  | Failed upload_error

definition upload_handler :: "platform \<Rightarrow> nat \<Rightarrow> req_file option \<Rightarrow> http_result \<times> nat" where
  "upload_handler pf draws file =
     (case file of
        None \<Rightarrow> (Response 400 [(''error'', JStr ''Dataset file is required'')], draws)
      | Some f \<Rightarrow>
          let (uploadId, draws') = uuidv4 pf draws
          in (Response 201
                [(''message'', JStr ''Dataset uploaded successfully''),
                 (''uploadId'', JStr uploadId),
                 (''filename'', JStr (filename f)),
                 (''path'', JStr (path f)),
                 (''size'', JNum (Finite (of_nat (size_bytes f))))],
              draws'))"

definition post_upload :: "platform \<Rightarrow> nat \<Rightarrow> file_part option \<Rightarrow> http_result \<times> nat" where
  "post_upload pf draws part =
     (case upload_single pf draws part of
        (Inl e, draws') \<Rightarrow> (Failed e, draws')
      | (Inr file, draws') \<Rightarrow> upload_handler pf draws' file)"

section \<open>Notions used in the statements\<close>



text \<open>
  An instance of the parameter \<open>num_string\<close> for closed examples: the digits of the
  integer part.
\<close>

definition sample_num_string :: "rat \<Rightarrow> string" where
  "sample_num_string x = dec_digits (nat \<lfloor>x\<rfloor>)"




text \<open>A value that the tooltip shows as \<open>N/A\<close>: not of type number, or \<open>NaN\<close>.\<close>

definition not_a_number :: "jsval \<Rightarrow> bool" where
  "not_a_number v = (case v of JNum n \<Rightarrow> n = NaN | _ \<Rightarrow> True)"

text \<open>A comparison result in which the engine \<open>mapreduce\<close> and most fields of \<open>scidb\<close>
  are missing, and a tooltip payload with an \<open>undefined\<close> entry, an entry without a
  color, an entry whose value is a string and a regular entry.\<close>

definition partial_result :: jsval where
  "partial_result =
     JObj [(''scidb'', JObj [(''execution_time_seconds'', JNum (Finite (3 / 2))),
                             (''file_size_bytes'', JNum (Finite 2048))])]"

definition sample_payload :: "jsval list" where
  "sample_payload =
     [JUndefined,
      JObj [(''name'', JStr ''scidb''), (''value'', JNum (Finite 5))],
      JObj [(''color'', JStr ''#4f46e5''), (''name'', JStr ''scidb''), (''value'', JStr ''fast'')],
      JObj [(''color'', JStr ''#10b981''), (''name'', JStr ''mapreduce''), (''value'', JNum (Finite (3 / 2)))]]"

text \<open>A comparison result in which one metric of the engine \<open>scidb\<close> is an object with
  an own property \<open>toString\<close>.\<close>

definition unconvertible_result :: jsval where
  "unconvertible_result =
     JObj [(''scidb'', JObj [(''row_count'', JObj [(''toString'', JNum (Finite 1))])])]"






text \<open>An instance of the platform for closed examples (the extension is taken from the
  first point on, joining is concatenation, and two identifiers alternate), the same
  platform with a generator that repeats one identifier, a file whose name has no
  extension, a small file and a file of 6 GiB.\<close>

definition sample_extname :: "string \<Rightarrow> string" where
  "sample_extname n = dropWhile (\<lambda>c. c \<noteq> CHR ''.'') n"

definition sample_uuids :: "nat \<Rightarrow> string" where
  "sample_uuids n =
     (if even n then ''1b9d6bcd-bbfd-4b2d-9b5d-ab8dfbbd4bed''
      else ''9c5b94b1-35ad-49bb-b118-8e8fc24abf80'')"

definition sample_platform :: platform where
  "sample_platform =
     \<lparr>extname = sample_extname, path_join = append, uuid_sequence = sample_uuids\<rparr>"


definition small_file :: file_part where
  "small_file = \<lparr>originalname = ''rows.csv'', part_size = 1024\<rparr>"

definition six_gib_file :: file_part where
  "six_gib_file = \<lparr>originalname = ''rows.csv'', part_size = 6 * 1024 * 1024 * 1024\<rparr>"

section \<open>Reading back what \<open>toFixed\<close> prints\<close>


























section \<open>Properties of the normalizer\<close>

lemma ToNumber_undefined: "ToNumber JUndefined = Inr NaN"
  by (simp add: ToNumber_def)

lemma ToNumber_num: "ToNumber (JNum n) = Inr n"
  by (simp add: ToNumber_def)







lemma truthy_not_zero: "truthy b \<Longrightarrow> b \<noteq> JNum (Finite 0) \<and> b \<noteq> JNum NegZero"
  by auto

lemma safeDivide_falsy: "\<not> truthy b \<Longrightarrow> safeDivide a b = Inr (Finite 0)"
  by (simp add: safeDivide_def)

lemma safeDivide_truthy:
  "truthy b \<Longrightarrow> divide_values a b = Inr q \<Longrightarrow>
   safeDivide a b = Inr (if q = NaN then Finite 0 else q)"
  using truthy_not_zero [of b] by (simp add: safeDivide_def)

text \<open>
  C2 (as amended). \<open>safeDivide(a, b)\<close> returns \<open>0\<close> when \<open>b\<close> is falsy (zero, \<open>null\<close>,
  \<open>undefined\<close>, \<open>NaN\<close>, the empty string, \<open>false\<close>), whatever \<open>a\<close> is, and when \<open>a / b\<close> is
  \<open>NaN\<close>; when \<open>b\<close> is truthy and \<open>a / b\<close> is a number other than \<open>NaN\<close> it returns
  \<open>a / b\<close>, which may be an infinity.
\<close>

theorem safeDivide_result:
  "(\<not> truthy b \<longrightarrow> safeDivide a b = Inr (Finite 0))
   \<and> (truthy b \<and> divide_values a b = Inr NaN \<longrightarrow> safeDivide a b = Inr (Finite 0))
   \<and> (truthy b \<and> divide_values a b = Inr q \<and> q \<noteq> NaN \<longrightarrow> safeDivide a b = Inr q)
   \<and> safeDivide a (JNum (Finite 0)) = Inr (Finite 0)
   \<and> safeDivide a JNull = Inr (Finite 0)
   \<and> safeDivide a JUndefined = Inr (Finite 0)"
  using safeDivide_truthy [of b a NaN] safeDivide_truthy [of b a q]
  by (simp add: safeDivide_falsy)

text \<open>
  C2 as stated fails: \<open>Infinity / 1\<close> is not finite, and \<open>safeDivide\<close> returns it, not \<open>0\<close>.
\<close>

theorem safeDivide_infinity_counterexample:
  "divide_values (JNum PInf) (JNum (Finite 1)) = Inr PInf
   \<and> safeDivide (JNum PInf) (JNum (Finite 1)) = Inr PInf
   \<and> safeDivide (JNum PInf) (JNum (Finite 1)) \<noteq> Inr (Finite 0)"
  by (simp add: safeDivide_def divide_values_def ToNumber_def js_div_def is_infinite_def
        is_zero_def signed_infinity_def)

text \<open>Instances of C2 as amended: an empty-string denominator, an \<open>undefined\<close>
  numerator, and \<open>2048 / 1024\<close>.\<close>

theorem safeDivide_result_witness:
  "safeDivide (JNum (Finite 6)) (JStr []) = Inr (Finite 0)
   \<and> safeDivide JUndefined (JNum (Finite 1)) = Inr (Finite 0)
   \<and> safeDivide (JNum (Finite 2048)) (JNum (Finite 1024)) = Inr (Finite 2)"
proof -
  have q: "js_div (Finite 2048) (Finite 1024) = Finite 2" by code_simp
  have d1: "divide_values JUndefined (JNum (Finite 1)) = Inr NaN"
    by (simp add: divide_values_def ToNumber_def js_div_def)
  have d2: "divide_values (JNum (Finite 2048)) (JNum (Finite 1024)) = Inr (Finite 2)"
    by (simp add: divide_values_def ToNumber_def q)
  show ?thesis
    using safeDivide_result [of "JStr []" "JNum (Finite 6)"]
          safeDivide_result [of "JNum (Finite 1)" JUndefined]
          safeDivide_result [of "JNum (Finite 1024)" "JNum (Finite 2048)" "Finite 2"]
    by (simp add: d1 d2)
qed

lemma chartValue_converted:
  "ToNumber v = Inr n \<Longrightarrow>
   chartValue v = Inr (if v = JNull \<or> n = NaN then JNull else JNum n)"
  by (auto simp: chartValue_def isNaN_def ToNumber_undefined)

text \<open>
  C3 (as amended). For an input whose number conversion returns, \<open>chartValue\<close> returns
  \<open>null\<close> exactly when the input is \<open>undefined\<close>, \<open>null\<close> or converts to \<open>NaN\<close>; for every
  other such input it returns the converted number, so a number other than \<open>NaN\<close> (an
  infinity included) comes back unchanged.
\<close>

theorem chartValue_result:
  "(ToNumber v = Inr n \<longrightarrow>
      (chartValue v = Inr JNull) = (v = JUndefined \<or> v = JNull \<or> n = NaN))
   \<and> (ToNumber v = Inr n \<and> v \<noteq> JNull \<and> n \<noteq> NaN \<longrightarrow> chartValue v = Inr (JNum n))
   \<and> (m \<noteq> NaN \<longrightarrow> chartValue (JNum m) = Inr (JNum m))"
proof (intro conjI impI)
  assume c: "ToNumber v = Inr n"
  have "v = JUndefined \<Longrightarrow> n = NaN" using c by (simp add: ToNumber_undefined)
  then show "(chartValue v = Inr JNull) = (v = JUndefined \<or> v = JNull \<or> n = NaN)"
    unfolding chartValue_converted [OF c] by auto
next
  assume "ToNumber v = Inr n \<and> v \<noteq> JNull \<and> n \<noteq> NaN"
  then show "chartValue v = Inr (JNum n)" by (simp add: chartValue_converted)
next
  assume "m \<noteq> NaN"
  then show "chartValue (JNum m) = Inr (JNum m)"
    by (simp add: chartValue_converted [OF ToNumber_num])
qed

text \<open>
  C3 as stated fails: \<open>Infinity\<close> is not finite, and \<open>chartValue\<close> returns it, not \<open>null\<close>.
\<close>

theorem chartValue_infinity_counterexample:
  "chartValue (JNum PInf) = Inr (JNum PInf) \<and> chartValue (JNum PInf) \<noteq> Inr JNull"
  by (simp add: chartValue_converted [OF ToNumber_num])

text \<open>Instances of C3 as amended: \<open>undefined\<close>, \<open>true\<close> and \<open>3.5\<close>.\<close>

theorem chartValue_result_witness:
  "chartValue JUndefined = Inr JNull
   \<and> chartValue (JBool True) = Inr (JNum (Finite 1))
   \<and> chartValue (JNum (Finite (7 / 2))) = Inr (JNum (Finite (7 / 2)))"
  using chartValue_result [of JUndefined NaN NaN]
        chartValue_result [of "JBool True" "Finite 1" NaN]
        chartValue_result [of "JNum (Finite (7 / 2))" "Finite (7 / 2)" "Finite (7 / 2)"]
  by (simp add: ToNumber_def)




section \<open>Properties of the schema builder\<close>

lemma get_prop_truthy: "truthy v \<Longrightarrow> \<exists>x. get_prop v k = Inr x"
  by (cases v) (simp_all add: get_prop_def)

lemma opt_prop_total: "\<exists>x. opt_prop v k = Inr x"
  by (cases v) (simp_all add: opt_prop_def get_prop_def)

lemma engine_field_truthy: "truthy data \<Longrightarrow> \<exists>x. engine_field data e k = Inr x"
  using get_prop_truthy [of data e] opt_prop_total
  by (auto simp: engine_field_def bind_res_def)

lemma chartValue_total: "convertible v \<Longrightarrow> \<exists>x. chartValue v = Inr x"
  by (simp add: chartValue_def isNaN_def ToNumber_def)

lemma chart_ratio_total: "convertible v \<Longrightarrow> \<exists>x. chart_ratio d v = Inr x"
proof -
  assume c: "convertible v"
  have dv: "divide_values v (JNum (Finite d)) = Inr (js_div (to_number v) (Finite d))"
    using c by (simp add: divide_values_def ToNumber_def)
  have "\<exists>q. safeDivide v (JNum (Finite d)) = Inr q"
    by (simp add: safeDivide_def dv)
  then obtain q where q: "safeDivide v (JNum (Finite d)) = Inr q" by blast
  show ?thesis
    using chartValue_total [of "JNum q"] by (simp add: chart_ratio_def bind_res_def q)
qed

lemma metric_row_truthy:
  assumes "truthy data" "\<forall>e k v. engine_field data e k = Inr v \<longrightarrow> convertible v"
    and "f = chartValue \<or> f = chart_ratio d"
  shows "\<exists>x y. metric_row n (bind_res (engine_field data e1 k1) f) (bind_res (engine_field data e2 k2) f)
           = Inr \<lparr>name = n, scidb = x, mapreduce = y\<rparr>"
proof -
  obtain a where a: "engine_field data e1 k1 = Inr a" using engine_field_truthy [OF assms(1)] by blast
  obtain b where b: "engine_field data e2 k2 = Inr b" using engine_field_truthy [OF assms(1)] by blast
  have ca: "convertible a" and cb: "convertible b" using assms(2) a b by blast+
  obtain x where x: "f a = Inr x"
    using assms(3) chartValue_total [OF ca] chart_ratio_total [OF ca] by blast
  obtain y where y: "f b = Inr y"
    using assms(3) chartValue_total [OF cb] chart_ratio_total [OF cb] by blast
  show ?thesis by (simp add: metric_row_def bind_res_def a b x y)
qed

lemma collect_rows:
  "\<forall>r\<in>set rs. \<exists>x y. snd r = Inr \<lparr>name = fst r, scidb = x, mapreduce = y\<rparr> \<Longrightarrow>
   \<exists>out. collect (map snd rs) = Inr out \<and> map name out = map fst rs"
proof (induction rs)
  case Nil
  show ?case by simp
next
  case (Cons r rs)
  then obtain out where o: "collect (map snd rs) = Inr out" "map name out = map fst rs" by auto
  obtain x y where r: "snd r = Inr \<lparr>name = fst r, scidb = x, mapreduce = y\<rparr>" using Cons.prems by auto
  show ?case by (simp add: o r bind_res_def)
qed

lemma performanceMetrics_names:
  assumes "truthy data" "\<forall>e k v. engine_field data e k = Inr v \<longrightarrow> convertible v"
  shows "\<exists>rows. performanceMetrics data = Inr rows \<and>
     map name rows = [''Execution Time (s)'', ''Memory (MB)'', ''CPU (%)'', ''Throughput (rows/s)'']"
proof -
  let ?rs = "[(''Execution Time (s)'', metric_row ''Execution Time (s)''
             (bind_res (engine_field data ''scidb'' ''execution_time_seconds'') chartValue)
             (bind_res (engine_field data ''mapreduce'' ''execution_time_seconds'') chartValue)),
           (''Memory (MB)'', metric_row ''Memory (MB)''
             (bind_res (engine_field data ''scidb'' ''memory_usage_snapshot_mb'') (chart_ratio 1))
             (bind_res (engine_field data ''mapreduce'' ''memory_usage_avg_mb'') (chart_ratio 1))),
           (''CPU (%)'', metric_row ''CPU (%)''
             (bind_res (engine_field data ''scidb'' ''cpu_percent_snapshot'') chartValue)
             (bind_res (engine_field data ''mapreduce'' ''cpu_percent_avg'') chartValue)),
           (''Throughput (rows/s)'', metric_row ''Throughput (rows/s)''
             (bind_res (engine_field data ''scidb'' ''throughput_rows_per_sec'') chartValue)
             (bind_res (engine_field data ''mapreduce'' ''throughput_rows_per_sec'') chartValue))]"
  have "\<forall>r\<in>set ?rs. \<exists>x y. snd r = Inr \<lparr>name = fst r, scidb = x, mapreduce = y\<rparr>"
    using metric_row_truthy [OF assms, of chartValue] metric_row_truthy [OF assms, of "chart_ratio 1" 1]
      metric_row_truthy [OF assms, of "chart_ratio 1024" 1024]
    by simp
  from collect_rows [OF this] show ?thesis
    using assms(1) by (simp add: performanceMetrics_def)
qed

lemma dataMetrics_names:
  assumes "truthy data" "\<forall>e k v. engine_field data e k = Inr v \<longrightarrow> convertible v"
  shows "\<exists>rows. dataMetrics data = Inr rows \<and>
     map name rows = [''Rows Processed'', ''Columns'', ''File Size (KB)'', ''Avg Row Size (bytes)'']"
proof -
  let ?rs = "[(''Rows Processed'', metric_row ''Rows Processed''
             (bind_res (engine_field data ''scidb'' ''row_count'') chartValue)
             (bind_res (engine_field data ''mapreduce'' ''row_count'') chartValue)),
           (''Columns'', metric_row ''Columns''
             (bind_res (engine_field data ''scidb'' ''column_count'') chartValue)
             (bind_res (engine_field data ''mapreduce'' ''column_count'') chartValue)),
           (''File Size (KB)'', metric_row ''File Size (KB)''
             (bind_res (engine_field data ''scidb'' ''file_size_bytes'') (chart_ratio 1024))
             (bind_res (engine_field data ''mapreduce'' ''file_size_bytes'') (chart_ratio 1024))),
           (''Avg Row Size (bytes)'', metric_row ''Avg Row Size (bytes)''
             (bind_res (engine_field data ''scidb'' ''avg_row_size_bytes'') chartValue)
             (bind_res (engine_field data ''mapreduce'' ''avg_row_size_bytes'') chartValue))]"
  have "\<forall>r\<in>set ?rs. \<exists>x y. snd r = Inr \<lparr>name = fst r, scidb = x, mapreduce = y\<rparr>"
    using metric_row_truthy [OF assms, of chartValue] metric_row_truthy [OF assms, of "chart_ratio 1" 1]
      metric_row_truthy [OF assms, of "chart_ratio 1024" 1024]
    by simp
  from collect_rows [OF this] show ?thesis
    using assms(1) by (simp add: dataMetrics_def)
qed

lemma systemMetrics_names:
  assumes "truthy data" "\<forall>e k v. engine_field data e k = Inr v \<longrightarrow> convertible v"
  shows "\<exists>rows. systemMetrics data = Inr rows \<and> map name rows = [''Memory Usage (%)'']"
proof -
  let ?rs = "[(''Memory Usage (%)'', metric_row ''Memory Usage (%)''
             (bind_res (engine_field data ''scidb'' ''memory_percent_snapshot'') chartValue)
             (bind_res (engine_field data ''mapreduce'' ''memory_percent_avg'') chartValue))]"
  have "\<forall>r\<in>set ?rs. \<exists>x y. snd r = Inr \<lparr>name = fst r, scidb = x, mapreduce = y\<rparr>"
    using metric_row_truthy [OF assms, of chartValue] metric_row_truthy [OF assms, of "chart_ratio 1" 1]
      metric_row_truthy [OF assms, of "chart_ratio 1024" 1024]
    by simp
  from collect_rows [OF this] show ?thesis
    using assms(1) by (simp add: systemMetrics_def)
qed

text \<open>
  What holds of the builders when no metric value makes the conversion throw: for every
  truthy \<open>data\<close> (every object is truthy, whichever of its fields are missing) the three
  builders return rows whose names are the fixed lists below, in this order; only the
  values of the rows depend on \<open>data\<close>.
\<close>

lemma builder_rows_fixed:
  assumes "truthy data" "\<forall>e k v. engine_field data e k = Inr v \<longrightarrow> convertible v"
  shows "\<exists>perf dat sys.
     performanceMetrics data = Inr perf \<and> dataMetrics data = Inr dat \<and> systemMetrics data = Inr sys
     \<and> map name perf = [''Execution Time (s)'', ''Memory (MB)'', ''CPU (%)'', ''Throughput (rows/s)'']
     \<and> map name dat = [''Rows Processed'', ''Columns'', ''File Size (KB)'', ''Avg Row Size (bytes)'']
     \<and> map name sys = [''Memory Usage (%)'']"
proof -
  obtain perf where p: "performanceMetrics data = Inr perf"
      "map name perf = [''Execution Time (s)'', ''Memory (MB)'', ''CPU (%)'', ''Throughput (rows/s)'']"
    using performanceMetrics_names [OF assms] by (elim exE conjE)
  obtain dat where d: "dataMetrics data = Inr dat"
      "map name dat = [''Rows Processed'', ''Columns'', ''File Size (KB)'', ''Avg Row Size (bytes)'']"
    using dataMetrics_names [OF assms] by (elim exE conjE)
  obtain sys where s: "systemMetrics data = Inr sys" "map name sys = [''Memory Usage (%)'']"
    using systemMetrics_names [OF assms] by (elim exE conjE)
  show ?thesis
    by (intro exI conjI) (rule p d s)+
qed

lemma partial_result_perf:
  "performanceMetrics partial_result =
     Inr [\<lparr>name = ''Execution Time (s)'', scidb = JNum (Finite (3 / 2)), mapreduce = JNull\<rparr>,
          \<lparr>name = ''Memory (MB)'', scidb = JNum (Finite 0), mapreduce = JNum (Finite 0)\<rparr>,
          \<lparr>name = ''CPU (%)'', scidb = JNull, mapreduce = JNull\<rparr>,
          \<lparr>name = ''Throughput (rows/s)'', scidb = JNull, mapreduce = JNull\<rparr>]"
  by (simp add: performanceMetrics_def partial_result_def metric_row_def bind_res_def
        engine_field_def get_prop_def opt_prop_def chartValue_def isNaN_def chart_ratio_def
        safeDivide_def divide_values_def ToNumber_def js_div_def)

lemma partial_result_converts:
  "\<forall>e k v. engine_field partial_result e k = Inr v \<longrightarrow> convertible v"
proof (intro allI impI)
  fix e k v
  assume h: "engine_field partial_result e k = Inr v"
  show "convertible v"
  proof (cases "e = ''scidb''")
    case False
    then have "v = JUndefined"
      using h by (simp add: partial_result_def engine_field_def bind_res_def get_prop_def opt_prop_def)
    then show ?thesis by simp
  next
    case True
    then have "v = JUndefined \<or> v = JNum (Finite (3 / 2)) \<or> v = JNum (Finite 2048)"
      using h
      by (simp add: partial_result_def engine_field_def bind_res_def get_prop_def opt_prop_def
            split: if_splits)
    then show ?thesis by auto
  qed
qed

text \<open>The instance at a result without \<open>mapreduce\<close>: all rows are there, the missing
  values are \<open>null\<close> (or \<open>0\<close> where \<open>safeDivide\<close> stands before \<open>chartValue\<close>).\<close>

lemma builder_rows_fixed_missing_engine:
  "truthy partial_result
   \<and> performanceMetrics partial_result =
     Inr [\<lparr>name = ''Execution Time (s)'', scidb = JNum (Finite (3 / 2)), mapreduce = JNull\<rparr>,
          \<lparr>name = ''Memory (MB)'', scidb = JNum (Finite 0), mapreduce = JNum (Finite 0)\<rparr>,
          \<lparr>name = ''CPU (%)'', scidb = JNull, mapreduce = JNull\<rparr>,
          \<lparr>name = ''Throughput (rows/s)'', scidb = JNull, mapreduce = JNull\<rparr>]
   \<and> (\<exists>dat sys. dataMetrics partial_result = Inr dat \<and> systemMetrics partial_result = Inr sys
        \<and> map name dat = [''Rows Processed'', ''Columns'', ''File Size (KB)'', ''Avg Row Size (bytes)'']
        \<and> map name sys = [''Memory Usage (%)''])"
proof -
  have t: "truthy partial_result" by (simp add: partial_result_def)
  obtain perf dat sys where r:
      "dataMetrics partial_result = Inr dat" "systemMetrics partial_result = Inr sys"
      "map name dat = [''Rows Processed'', ''Columns'', ''File Size (KB)'', ''Avg Row Size (bytes)'']"
      "map name sys = [''Memory Usage (%)'']"
    using builder_rows_fixed [OF t partial_result_converts] by (elim exE conjE)
  show ?thesis
    by (intro conjI exI) (rule t partial_result_perf r)+
qed

text \<open>
  C4 (the code at the failing input). The claim asks for the fixed row list whatever the
  engines report. A metric whose value is an object with an own property \<open>toString\<close>
  makes \<open>isNaN\<close> throw inside \<open>chartValue\<close>, which its comment describes as ensuring "a
  number or null": the builder throws and returns no rows at all.
\<close>

theorem builder_throws_on_unconvertible:
  "truthy unconvertible_result \<and> dataMetrics unconvertible_result = Inl TypeError"
  by (simp add: dataMetrics_def unconvertible_result_def metric_row_def bind_res_def
        engine_field_def get_prop_def opt_prop_def chartValue_def isNaN_def ToNumber_def)

section \<open>Properties of the presentation layer\<close>

lemma builders_null:
  "performanceMetrics JNull = Inr []" "dataMetrics JNull = Inr []" "systemMetrics JNull = Inr []"
  by (simp_all add: performanceMetrics_def dataMetrics_def systemMetrics_def)

text \<open>
  C8. With \<open>response = null\<close> the three builders return the empty list and the
  component returns, without throwing, the heading, the upload form and the value
  \<open>null\<close> in place of the summary section, which React draws as nothing; the tree holds
  no chart.
\<close>

theorem null_response_view:
  "performanceMetrics JNull = Inr [] \<and> dataMetrics JNull = Inr [] \<and> systemMetrics JNull = Inr []
   \<and> FileUpload ns vt JNull loading =
       Inr (Elem ''div'' []
              [Elem ''h2'' [] [Txt ''File Upload & Database Benchmark''],
               upload_form loading,
               Expr JNull])
   \<and> draws_nothing (Expr JNull)
   \<and> \<not> has_chart (Elem ''div'' []
              [Elem ''h2'' [] [Txt ''File Upload & Database Benchmark''],
               upload_form loading,
               Expr JNull])"
  by (simp add: builders_null FileUpload_def bind_res_def upload_form_def)

lemma toFixed_two: "\<exists>t. toFixed ns n 2 = Inr t"
  by (cases n) (simp_all add: toFixed_def)

lemma entry_value_text_total: "\<exists>t. entry_value_text ns v = Inr t"
  using toFixed_two [of ns] by (cases v) (auto simp: entry_value_text_def)

lemma entry_value_text_na: "not_a_number v \<Longrightarrow> entry_value_text ns v = Inr ''N/A''"
  by (cases v) (simp_all add: entry_value_text_def not_a_number_def)

lemma tooltip_entry_total: "\<exists>n. tooltip_entry ns entry = Inr n"
proof (cases "truthy entry")
  case False
  then show ?thesis by (simp add: tooltip_entry_def)
next
  case True
  obtain c where c: "get_prop entry ''color'' = Inr c" using get_prop_truthy [OF True] by blast
  obtain nm where nm: "get_prop entry ''name'' = Inr nm" using get_prop_truthy [OF True] by blast
  obtain v where v: "get_prop entry ''value'' = Inr v" using get_prop_truthy [OF True] by blast
  obtain t where t: "entry_value_text ns v = Inr t" using entry_value_text_total by blast
  show ?thesis using True by (simp add: tooltip_entry_def bind_res_def c nm v t)
qed

lemma collect_total:
  "\<forall>x\<in>set xs. \<exists>n. f x = Inr n \<Longrightarrow>
   \<exists>ns. collect (map f xs) = Inr ns \<and> length ns = length xs \<and> (\<forall>i<length xs. f (xs ! i) = Inr (ns ! i))"
proof (induction xs)
  case Nil
  show ?case by simp
next
  case (Cons x xs)
  then obtain ns where ns: "collect (map f xs) = Inr ns" "length ns = length xs"
      "\<forall>i<length xs. f (xs ! i) = Inr (ns ! i)" by auto
  obtain n where n: "f x = Inr n" using Cons.prems by auto
  have "\<forall>i<length (x # xs). f ((x # xs) ! i) = Inr ((n # ns) ! i)"
    using ns(3) n by (auto simp: nth_Cons split: nat.splits)
  then show ?case using ns n by (simp add: bind_res_def)
qed

lemma tooltip_entries:
  "\<exists>entries. array_map (tooltip_entry ns) (JArr es) = Inr entries \<and> length entries = length es
     \<and> (\<forall>i<length es. tooltip_entry ns (es ! i) = Inr (entries ! i))"
  using collect_total [of es "tooltip_entry ns"] tooltip_entry_total
  by (simp add: array_map_def)

lemma CustomTooltip_list_shown:
  assumes "truthy active" "es \<noteq> []"
  shows "\<exists>entries. CustomTooltip ns active (JArr es) label =
            Inr (Elem ''div'' [] (Elem ''p'' [] [Expr label] # entries))
         \<and> length entries = length es
         \<and> (\<forall>i<length es. tooltip_entry ns (es ! i) = Inr (entries ! i))"
proof -
  obtain entries where e: "array_map (tooltip_entry ns) (JArr es) = Inr entries"
      "length entries = length es" "\<forall>i<length es. tooltip_entry ns (es ! i) = Inr (entries ! i)"
    using tooltip_entries by blast
  have "CustomTooltip ns active (JArr es) label = Inr (Elem ''div'' [] (Elem ''p'' [] [Expr label] # entries))"
    using assms by (simp add: CustomTooltip_def get_prop_def bind_res_def e(1))
  then show ?thesis using e by blast
qed

lemma CustomTooltip_list_total: "\<exists>view. CustomTooltip ns active (JArr es) label = Inr view"
proof (cases "truthy active \<and> es \<noteq> []")
  case True
  then show ?thesis using CustomTooltip_list_shown [of active es ns label] by blast
next
  case False
  then show ?thesis by (auto simp: CustomTooltip_def get_prop_def bind_res_def)
qed

text \<open>
  C9. For every payload that is a list, \<open>CustomTooltip\<close> returns without throwing. When
  \<open>active\<close> is truthy and the list is not empty, the result is the label followed by one
  node per entry, in order. A falsy entry (\<open>undefined\<close> among them) and an entry whose
  \<open>color\<close> is \<open>undefined\<close> give \<open>null\<close>, which is drawn as nothing; an entry with a color
  whose value is not a number or is \<open>NaN\<close> gives a line with the text \<open>N/A\<close>.
\<close>

theorem tooltip_never_throws:
  "(\<exists>view. CustomTooltip ns active (JArr es) label = Inr view)
   \<and> (truthy active \<and> es \<noteq> [] \<longrightarrow>
        (\<exists>entries. CustomTooltip ns active (JArr es) label =
              Inr (Elem ''div'' [] (Elem ''p'' [] [Expr label] # entries))
           \<and> length entries = length es
           \<and> (\<forall>i<length es. tooltip_entry ns (es ! i) = Inr (entries ! i))))
   \<and> (\<not> truthy entry \<or> get_prop entry ''color'' = Inr JUndefined \<longrightarrow>
        tooltip_entry ns entry = Inr (Expr JNull))
   \<and> (truthy entry \<and> get_prop entry ''color'' = Inr c \<and> c \<noteq> JUndefined
        \<and> get_prop entry ''name'' = Inr nm \<and> get_prop entry ''value'' = Inr v \<and> not_a_number v \<longrightarrow>
        tooltip_entry ns entry = Inr (Elem ''p'' [(''color'', c)] [Expr nm, Txt '':'', Txt '' '', Txt ''N/A'']))
   \<and> draws_nothing (Expr JNull)"
proof (intro conjI impI)
  show "\<exists>view. CustomTooltip ns active (JArr es) label = Inr view"
    by (rule CustomTooltip_list_total)
next
  assume "truthy active \<and> es \<noteq> []"
  then show "\<exists>entries. CustomTooltip ns active (JArr es) label =
              Inr (Elem ''div'' [] (Elem ''p'' [] [Expr label] # entries))
           \<and> length entries = length es
           \<and> (\<forall>i<length es. tooltip_entry ns (es ! i) = Inr (entries ! i))"
    using CustomTooltip_list_shown by blast
next
  assume "\<not> truthy entry \<or> get_prop entry ''color'' = Inr JUndefined"
  then show "tooltip_entry ns entry = Inr (Expr JNull)"
    by (auto simp: tooltip_entry_def bind_res_def)
next
  assume h: "truthy entry \<and> get_prop entry ''color'' = Inr c \<and> c \<noteq> JUndefined
        \<and> get_prop entry ''name'' = Inr nm \<and> get_prop entry ''value'' = Inr v \<and> not_a_number v"
  then show "tooltip_entry ns entry = Inr (Elem ''p'' [(''color'', c)] [Expr nm, Txt '':'', Txt '' '', Txt ''N/A''])"
    by (simp add: tooltip_entry_def bind_res_def entry_value_text_na)
next
  show "draws_nothing (Expr JNull)" by simp
qed

text \<open>The instance of C9 at the sample payload.\<close>

theorem tooltip_never_throws_witness:
  "CustomTooltip sample_num_string (JBool True) (JArr sample_payload) (JStr ''CPU (%)'') =
     Inr (Elem ''div'' []
       [Elem ''p'' [] [Expr (JStr ''CPU (%)'')],
        Expr JNull,
        Expr JNull,
        Elem ''p'' [(''color'', JStr ''#4f46e5'')] [Expr (JStr ''scidb''), Txt '':'', Txt '' '', Txt ''N/A''],
        Elem ''p'' [(''color'', JStr ''#10b981'')] [Expr (JStr ''mapreduce''), Txt '':'', Txt '' '', Txt ''1.50'']])"
proof -
  have t: "truthy (JBool True) \<and> sample_payload \<noteq> []" by (simp add: sample_payload_def)
  have e: "tooltip_entry sample_num_string JUndefined = Inr (Expr JNull)"
    using tooltip_never_throws [of sample_num_string "JBool True" sample_payload "JStr ''CPU (%)''" JUndefined]
    by simp
  have f: "toFixed sample_num_string (Finite (3 / 2)) 2 = Inr ''1.50''" by code_simp
  show ?thesis
    using e f
    by (simp add: CustomTooltip_def sample_payload_def array_map_def get_prop_def bind_res_def
          tooltip_entry_def entry_value_text_def)
qed

text \<open>A remark on the domain of C9: a truthy payload with a truthy \<open>length\<close> that is not
  an array (a non-empty string, say) has no \<open>map\<close> method, and the call throws.\<close>

lemma CustomTooltip_not_a_list:
  "CustomTooltip ns (JBool True) (JStr ''ab'') label = Inl TypeError"
  by (simp add: CustomTooltip_def get_prop_def bind_res_def array_map_def)

section \<open>Properties of the report store\<close>







section \<open>Properties of the upload ingress\<close>

lemma post_upload_none:
  "post_upload pf draws None = (Response 400 [(''error'', JStr ''Dataset file is required'')], draws)"
  by (simp add: post_upload_def upload_single_def upload_handler_def)

lemma post_upload_accepted:
  assumes "part_size file \<le> fileSize"
  shows "post_upload pf draws (Some file) =
     (Response 201
        [(''message'', JStr ''Dataset uploaded successfully''),
         (''uploadId'', JStr (uuid_sequence pf (Suc draws))),
         (''filename'', JStr (uuid_sequence pf draws @ extname pf (originalname file))),
         (''path'', JStr (path_join pf destination
                            (uuid_sequence pf draws @ extname pf (originalname file)))),
         (''size'', JNum (Finite (of_nat (part_size file))))],
      Suc (Suc draws))"
  using assms
  by (simp add: post_upload_def upload_single_def upload_handler_def storage_filename_def
        uuidv4_def)

lemma post_upload_too_large:
  assumes "fileSize < part_size file"
  shows "post_upload pf draws (Some file) = (Failed LIMIT_FILE_SIZE, Suc draws)"
  using assms
  by (simp add: post_upload_def upload_single_def storage_filename_def uuidv4_def)

lemma fileSize_value: "fileSize = 5 * 1024 ^ 3"
  by (simp add: fileSize_def)

text \<open>
  C6. Without a file the route answers 400 with an \<open>error\<close> object. A file of at most
  \<open>5 * 1024^3\<close> bytes gets 201 with \<open>message\<close>, \<open>uploadId\<close>, \<open>filename\<close>, \<open>path\<close> and
  \<open>size\<close>. A larger file is refused by the size limit before the handler runs.
\<close>

theorem upload_responses:
  "post_upload pf draws None =
       (Response 400 [(''error'', JStr ''Dataset file is required'')], draws)
   \<and> (part_size file \<le> 5 * 1024 ^ 3 \<longrightarrow>
        (\<exists>uploadId fname p.
           fst (post_upload pf draws (Some file)) =
             Response 201
               [(''message'', JStr ''Dataset uploaded successfully''),
                (''uploadId'', JStr uploadId),
                (''filename'', JStr fname),
                (''path'', JStr p),
                (''size'', JNum (Finite (of_nat (part_size file))))]))
   \<and> (5 * 1024 ^ 3 < part_size file \<longrightarrow>
        fst (post_upload pf draws (Some file)) = Failed LIMIT_FILE_SIZE)
   \<and> fileSize = 5 * 1024 ^ 3"
proof (intro conjI impI)
  show "post_upload pf draws None =
       (Response 400 [(''error'', JStr ''Dataset file is required'')], draws)"
    by (rule post_upload_none)
next
  assume "part_size file \<le> 5 * 1024 ^ 3"
  then have "part_size file \<le> fileSize" by (simp add: fileSize_value)
  from post_upload_accepted [OF this, of pf draws]
  show "\<exists>uploadId fname p.
           fst (post_upload pf draws (Some file)) =
             Response 201
               [(''message'', JStr ''Dataset uploaded successfully''),
                (''uploadId'', JStr uploadId),
                (''filename'', JStr fname),
                (''path'', JStr p),
                (''size'', JNum (Finite (of_nat (part_size file))))]"
    by simp
next
  assume "5 * 1024 ^ 3 < part_size file"
  then have "fileSize < part_size file" by (simp add: fileSize_value)
  from post_upload_too_large [OF this, of pf draws]
  show "fst (post_upload pf draws (Some file)) = Failed LIMIT_FILE_SIZE" by simp
next
  show "fileSize = 5 * 1024 ^ 3" by (rule fileSize_value)
qed

text \<open>Instances of C6: a file of 6 GiB and a file of 1024 bytes.\<close>

theorem upload_responses_witness:
  "fst (post_upload sample_platform 0 (Some six_gib_file)) = Failed LIMIT_FILE_SIZE
   \<and> (\<exists>uploadId fname p.
         fst (post_upload sample_platform 0 (Some small_file)) =
           Response 201
             [(''message'', JStr ''Dataset uploaded successfully''),
              (''uploadId'', JStr uploadId),
              (''filename'', JStr fname),
              (''path'', JStr p),
              (''size'', JNum (Finite 1024))])"
  using upload_responses [of sample_platform 0 six_gib_file]
        upload_responses [of sample_platform 0 small_file]
  by (simp add: six_gib_file_def small_file_def)



end
